theory Spec2Isabelle
  imports Main "HOL-Library.AList" "HOL-Library.Sublist"
begin

section \<open>Transport: requests, outcomes and the retry loop\<close>

text \<open>
  The client of \<^verbatim>\<open>commbuys.py\<close> talks to the portal through \<^verbatim>\<open>urllib\<close>. The network is
  modelled as a function from the requests sent so far and the current request to the
  outcome of one attempt: a decoded body, an \<^verbatim>\<open>HTTPError\<close> with its status code, a
  \<^verbatim>\<open>URLError\<close> with its reason (what \<^verbatim>\<open>urllib\<close> raises for a low-level connection
  failure), or any other exception. Strings are lists of characters read as code points
  below 256, the range of the Latin-1 fallback of the decoder. A Python dict is an association
  list in insertion order.
\<close>

type_synonym dict = "(string \<times> string) list"

datatype kind = GET | POST | AJAX_POST

record request =
  req_kind :: kind
  req_url :: string
  req_data :: "dict option"

datatype outcome = Body string | HTTPError nat | URLError string | OtherException string

datatype error =
    HTTPErr nat
  | URLErr string
  | OtherErr string
  | RuntimeError string
  | TypeError
  | KeyError
  | IndexError

type_synonym network = "request list \<Rightarrow> request \<Rightarrow> outcome"

record client =
  sent :: "request list"
  slept :: "nat list"

definition MAX_RETRIES :: nat where
  "MAX_RETRIES = 3"

definition retry_codes :: "nat list" where
  "retry_codes = [429, 500, 502, 503, 504]"

text \<open>
  The body of \<^verbatim>\<open>for attempt in range(MAX_RETRIES)\<close>, shared word for word by
  \<^verbatim>\<open>_make_request\<close> and \<^verbatim>\<open>_ajax_post\<close>. The list argument holds the attempts still to
  run. A loop that ends without \<^verbatim>\<open>return\<close> or \<^verbatim>\<open>raise\<close> makes the Python function return
  \<^verbatim>\<open>None\<close>, here \<open>Inr None\<close>.
\<close>

fun attempt_loop :: "network \<Rightarrow> request \<Rightarrow> nat list \<Rightarrow> client \<Rightarrow> client \<times> (error + string option)" where
  "attempt_loop net rq [] st = (st, Inr None)"
| "attempt_loop net rq (attempt # rest) st =
     (let st1 = st\<lparr>sent := sent st @ [rq]\<rparr> in
      case net (sent st) rq of
        Body content \<Rightarrow> (st1, Inr (Some content))
      | HTTPError code \<Rightarrow>
          if code \<in> set retry_codes \<and> attempt < MAX_RETRIES - 1
          then attempt_loop net rq rest (st1\<lparr>slept := slept st1 @ [2 ^ (attempt + 1)]\<rparr>)
          else (st1, Inl (HTTPErr code))
      | URLError reason \<Rightarrow>
          if attempt < MAX_RETRIES - 1
          then attempt_loop net rq rest (st1\<lparr>slept := slept st1 @ [2 ^ (attempt + 1)]\<rparr>)
          else (st1, Inl (URLErr reason))
      | OtherException e \<Rightarrow> (st1, Inl (OtherErr e)))"

definition Request :: "string \<Rightarrow> dict option \<Rightarrow> kind \<Rightarrow> request" where
  "Request url data method = \<lparr>req_kind = method, req_url = url, req_data = data\<rparr>"

definition make_request :: "network \<Rightarrow> string \<Rightarrow> dict option \<Rightarrow> kind \<Rightarrow> client \<Rightarrow> client \<times> (error + string option)" where
  "make_request net url data method st =
     attempt_loop net (Request url data method) [0 ..< MAX_RETRIES] st"

definition get :: "network \<Rightarrow> string \<Rightarrow> client \<Rightarrow> client \<times> (error + string option)" where
  "get net url st = make_request net url None GET st"

definition ajax_post :: "network \<Rightarrow> string \<Rightarrow> dict \<Rightarrow> client \<Rightarrow> client \<times> (error + string option)" where
  "ajax_post net url data st =
     attempt_loop net (Request url (Some data) AJAX_POST) [0 ..< MAX_RETRIES] st"

text \<open>An attempt fails transiently when its outcome is one the loop retries.\<close>

fun transient :: "outcome \<Rightarrow> bool" where
  "transient (HTTPError code) = (code \<in> set retry_codes)"
| "transient (URLError reason) = True"
| "transient _ = False"

fun raised :: "outcome \<Rightarrow> error" where
  "raised (HTTPError code) = HTTPErr code"
| "raised (URLError reason) = URLErr reason"
| "raised (OtherException e) = OtherErr e"
| "raised (Body b) = OtherErr []"

section \<open>Strings and regular expressions\<close>

text \<open>
  Python's \<^verbatim>\<open>\s\<close>, \<^verbatim>\<open>\d\<close>, \<^verbatim>\<open>str.lower\<close>, \<^verbatim>\<open>str.strip\<close> and the \<^verbatim>\<open>IGNORECASE\<close> comparison,
  on code points below 256.
\<close>

definition is_space :: "char \<Rightarrow> bool" where
  "is_space c = (of_char c \<in> set [9, 10, 11, 12, 13, 28, 29, 30, 31, 32, 133, 160 :: nat])"


definition lower_char :: "char \<Rightarrow> char" where
  "lower_char c = (let n = (of_char c :: nat) in
     if (65 \<le> n \<and> n \<le> 90) \<or> (192 \<le> n \<and> n \<le> 222 \<and> n \<noteq> 215) then char_of (n + 32) else c)"

definition lower :: "string \<Rightarrow> string" where
  "lower s = map lower_char s"

definition ieq :: "char \<Rightarrow> char \<Rightarrow> bool" where
  "ieq c d = (lower_char c = lower_char d)"

definition strip :: "string \<Rightarrow> string" where
  "strip s = rev (dropWhile is_space (rev (dropWhile is_space s)))"

definition quote :: "char \<Rightarrow> bool" where
  "quote c = (c = CHR 0x22 \<or> c = CHR 0x27)"

definition not_quote :: "char \<Rightarrow> bool" where
  "not_quote c = (\<not> quote c)"

definition not_dquote :: "char \<Rightarrow> bool" where
  "not_dquote c = (c \<noteq> CHR 0x22)"

definition not_gt :: "char \<Rightarrow> bool" where
  "not_gt c = (c \<noteq> CHR ''>'')"

definition any_char :: "char \<Rightarrow> bool" where
  "any_char c = True"

definition not_newline :: "char \<Rightarrow> bool" where
  "not_newline c = (c \<noteq> CHR 0x0A)"

text \<open>
  The fragment of Python's \<^verbatim>\<open>re\<close> syntax the program uses. A pattern is a sequence of
  atoms: a literal (\<open>LitI\<close> under \<^verbatim>\<open>IGNORECASE\<close>), one character of a class, and a class
  repeated: \<open>Star p\<close> is the greedy \<^verbatim>\<open>p*\<close>, \<open>Plus p\<close> the greedy \<^verbatim>\<open>p+\<close>, \<open>Lazy p\<close> the lazy
  \<^verbatim>\<open>p*?\<close> and \<open>Opt p\<close> the greedy \<^verbatim>\<open>p?\<close>. Each atom carries the number of the capturing
  group it stands in, 0 when it stands in none. No pattern of the program has an
  alternative, a nested group or a repeated group.
\<close>

datatype atom =
    Lit string
  | LitI string
  | Cls "char \<Rightarrow> bool"
  | Star "char \<Rightarrow> bool"
  | Plus "char \<Rightarrow> bool"
  | Lazy "char \<Rightarrow> bool"
  | Opt "char \<Rightarrow> bool"

type_synonym item = "atom \<times> nat"

type_synonym pattern = "item list"

definition plain :: "atom \<Rightarrow> item" where
  "plain a = (a, 0)"

definition grp :: "nat \<Rightarrow> atom \<Rightarrow> item" where
  "grp n a = (a, n)"

text \<open>A literal at the start of a text: the characters it consumed and the text left.\<close>

fun lit_match :: "(char \<Rightarrow> char \<Rightarrow> bool) \<Rightarrow> string \<Rightarrow> string \<Rightarrow> (string \<times> string) option" where
  "lit_match eq [] s = Some ([], s)"
| "lit_match eq (c # w) [] = None"
| "lit_match eq (c # w) (d # s) =
     (if eq c d
      then (case lit_match eq w s of None \<Rightarrow> None | Some (u, t) \<Rightarrow> Some (d # u, t))
      else None)"

text \<open>
  The captures of a match are the characters consumed inside groups, each with the number
  of its group, in the order of the text. \<open>took g text r\<close> adds to the result \<open>r\<close> of the
  rest of the pattern the \<open>text\<close> an atom of group \<open>g\<close> consumed before it.
\<close>

type_synonym captures = "(nat \<times> char) list"

definition tag :: "nat \<Rightarrow> string \<Rightarrow> captures" where
  "tag g text = (if g = 0 then [] else map (Pair g) text)"

definition took :: "nat \<Rightarrow> string \<Rightarrow> (captures \<times> string) option \<Rightarrow> (captures \<times> string) option" where
  "took g text r =
     (case r of
        None \<Rightarrow> None
      | Some (caps, rest) \<Rightarrow> Some (tag g text @ caps, rest))"

text \<open>
  \<open>match ps s\<close> is the backtracking matcher at the start of \<open>s\<close>: the first way, in the
  order Python's matcher tries them, in which the whole pattern matches, as the captures
  and the text left. A greedy repetition first takes one more character and gives it back
  when the rest of the pattern fails; a lazy one first tries the rest of the pattern.
\<close>

fun match :: "pattern \<Rightarrow> string \<Rightarrow> (captures \<times> string) option" where
  "match [] s = Some ([], s)"
| "match ((Lit w, g) # ps) s =
     (case lit_match (=) w s of None \<Rightarrow> None | Some (u, t) \<Rightarrow> took g u (match ps t))"
| "match ((LitI w, g) # ps) s =
     (case lit_match ieq w s of None \<Rightarrow> None | Some (u, t) \<Rightarrow> took g u (match ps t))"
| "match ((Cls p, g) # ps) [] = None"
| "match ((Cls p, g) # ps) (c # s) = (if p c then took g [c] (match ps s) else None)"
| "match ((Star p, g) # ps) [] = match ps []"
| "match ((Star p, g) # ps) (c # s) =
     (if p c
      then (case took g [c] (match ((Star p, g) # ps) s) of
              Some m \<Rightarrow> Some m
            | None \<Rightarrow> match ps (c # s))
      else match ps (c # s))"
| "match ((Plus p, g) # ps) [] = None"
| "match ((Plus p, g) # ps) (c # s) =
     (if p c then took g [c] (match ((Star p, g) # ps) s) else None)"
| "match ((Lazy p, g) # ps) [] = match ps []"
| "match ((Lazy p, g) # ps) (c # s) =
     (case match ps (c # s) of
        Some m \<Rightarrow> Some m
      | None \<Rightarrow> if p c then took g [c] (match ((Lazy p, g) # ps) s) else None)"
| "match ((Opt p, g) # ps) [] = match ps []"
| "match ((Opt p, g) # ps) (c # s) =
     (if p c
      then (case took g [c] (match ps s) of
              Some m \<Rightarrow> Some m
            | None \<Rightarrow> match ps (c # s))
      else match ps (c # s))"


text \<open>
  \<^verbatim>\<open>re.search\<close>: the match at the leftmost position that has one, as the text before the
  match, the captures and the text after it. \<open>group m n\<close> is \<^verbatim>\<open>m.group(n)\<close>.
\<close>

type_synonym found = "string \<times> captures \<times> string"

fun search :: "pattern \<Rightarrow> string \<Rightarrow> found option" where
  "search ps [] = (case match ps [] of None \<Rightarrow> None | Some (caps, t) \<Rightarrow> Some ([], caps, t))"
| "search ps (c # s) =
     (case match ps (c # s) of
        Some (caps, t) \<Rightarrow> Some ([], caps, t)
      | None \<Rightarrow> (case search ps s of None \<Rightarrow> None | Some (pre, caps, t) \<Rightarrow> Some (c # pre, caps, t)))"

definition captured :: "captures \<Rightarrow> nat \<Rightarrow> string" where
  "captured caps n = map snd (filter (\<lambda>x. fst x = n) caps)"

definition group :: "found \<Rightarrow> nat \<Rightarrow> string" where
  "group m n = captured (fst (snd m)) n"

text \<open>
  \<^verbatim>\<open>re.findall\<close> and \<^verbatim>\<open>re.sub\<close> scan on from the end of each match; \<open>findall\<close> lists the
  captures of the matches. Every pattern the program gives them starts with a literal, so
  a match is never empty; the branch for an empty match only makes the functions total.
\<close>

fun findall :: "pattern \<Rightarrow> string \<Rightarrow> captures list" where
  "findall ps s =
     (case search ps s of
        None \<Rightarrow> []
      | Some (pre, caps, t) \<Rightarrow>
          caps # (if length t < length s then findall ps t
                  else (case s of [] \<Rightarrow> [] | c # s' \<Rightarrow> findall ps s')))"

fun sub :: "pattern \<Rightarrow> string \<Rightarrow> string \<Rightarrow> string" where
  "sub ps repl s =
     (case search ps s of
        None \<Rightarrow> s
      | Some (pre, caps, t) \<Rightarrow>
          pre @ repl @ (if length t < length s then sub ps repl t
                        else (case s of [] \<Rightarrow> [] | c # s' \<Rightarrow> c # sub ps repl s')))"

declare findall.simps [simp del] sub.simps [simp del]

section \<open>Token extractor, reset action, envelope and dropdown resolver\<close>

definition hidden_name_first :: "string \<Rightarrow> pattern" where
  "hidden_name_first field = [plain (Lit ''name=''), plain (Cls quote), plain (Lit field),
     plain (Cls quote), plain (Star not_gt), plain (Lit ''value=''), plain (Cls quote),
     grp 1 (Plus not_quote)]"

definition hidden_value_first :: "string \<Rightarrow> pattern" where
  "hidden_value_first field = [plain (Lit ''value=''), plain (Cls quote), grp 1 (Plus not_quote),
     plain (Cls quote), plain (Star not_gt), plain (Lit ''name=''), plain (Cls quote),
     plain (Lit field)]"

text \<open>
  \<^verbatim>\<open>_extract_tokens\<close>. The four patterns are
  \<^verbatim>\<open>name=["']F["'][^>]*value=["']([^"']+)\<close> and
  \<^verbatim>\<open>value=["']([^"']+)["'][^>]*name=["']F\<close> for \<^verbatim>\<open>F\<close> the view-state and the
  \<^verbatim>\<open>_csrf\<close> field name.
\<close>

definition extract_tokens :: "string \<Rightarrow> dict" where
  "extract_tokens html_text =
     (let tokens = [];
          vs_match = search (hidden_name_first ''javax.faces.ViewState'') html_text;
          vs_match = (if vs_match = None
                      then search (hidden_value_first ''javax.faces.ViewState'') html_text
                      else vs_match);
          tokens = (case vs_match of
                      None \<Rightarrow> tokens
                    | Some m \<Rightarrow> AList.update ''javax.faces.ViewState'' (group m 1) tokens);
          csrf_match = search (hidden_name_first ''_csrf'') html_text;
          csrf_match = (if csrf_match = None
                        then search (hidden_value_first ''_csrf'') html_text
                        else csrf_match);
          tokens = (case csrf_match of
                      None \<Rightarrow> tokens
                    | Some m \<Rightarrow> AList.update ''_csrf'' (group m 1) tokens)
      in tokens)"

text \<open>
  \<^verbatim>\<open>_find_reset_button\<close>, with the pattern
  \<^verbatim>\<open>searchNew\s*=\s*function\s*\(\)\s*\{[^}]*?s:\s*["'](FORM:[^"']+)["']\<close>.
\<close>

definition reset_re :: "string \<Rightarrow> pattern" where
  "reset_re form_id = [plain (Lit ''searchNew''), plain (Star is_space), plain (Lit ''=''),
     plain (Star is_space), plain (Lit ''function''), plain (Star is_space), plain (Lit ''()''),
     plain (Star is_space), plain (Lit ''{''), plain (Lazy (\<lambda>c. c \<noteq> CHR ''}'')),
     plain (Lit ''s:''), plain (Star is_space), plain (Cls quote),
     grp 1 (Lit (form_id @ '':'')), grp 1 (Plus not_quote), plain (Cls quote)]"

definition find_reset_button :: "string \<Rightarrow> string \<Rightarrow> string option" where
  "find_reset_button html_text form_id =
     (case search (reset_re form_id) html_text of
        Some m \<Rightarrow> Some (group m 1)
      | None \<Rightarrow> None)"

text \<open>
  \<^verbatim>\<open>_parse_ajax_response\<close>: the contents of the \<^verbatim>\<open><![CDATA[...]]>\<close> blocks, joined by
  newlines.
\<close>

definition cdata_re :: pattern where
  "cdata_re = [plain (Lit ''<![CDATA[''), grp 1 (Lazy any_char), plain (Lit '']]>'')]"

fun join :: "string \<Rightarrow> string list \<Rightarrow> string" where
  "join sep [] = []"
| "join sep [x] = x"
| "join sep (x # xs) = x @ sep @ join sep xs"

definition parse_ajax_response :: "string \<Rightarrow> string" where
  "parse_ajax_response xml_text = join [CHR 0x0A] (map (\<lambda>m. captured m 1) (findall cdata_re xml_text))"

text \<open>
  \<^verbatim>\<open>_resolve_org_code\<close>. \<open>resolve_option\<close> is its body from the second statement on, for
  the field name the first statement computes. The patterns are
  \<^verbatim>\<open><select[^>]*name="FIELD"[^>]*>(.*?)</select>\<close> with \<^verbatim>\<open>DOTALL\<close> and
  \<^verbatim>\<open><option[^>]*value="([^"]*)"[^>]*>(.*?)</option>\<close> without it.
\<close>

definition select_re :: "string \<Rightarrow> pattern" where
  "select_re field_name = [plain (Lit ''<select''), plain (Star not_gt),
     plain (Lit (''name='' @ [CHR 0x22] @ field_name @ [CHR 0x22])), plain (Star not_gt),
     plain (Lit ''>''), grp 1 (Lazy any_char), plain (Lit ''</select>'')]"

definition option_re :: pattern where
  "option_re = [plain (Lit ''<option''), plain (Star not_gt), plain (Lit (''value='' @ [CHR 0x22])),
     grp 1 (Star not_dquote), plain (Lit [CHR 0x22]), plain (Star not_gt), plain (Lit ''>''),
     grp 2 (Lazy not_newline), plain (Lit ''</option>'')]"

fun exact_loop :: "string \<Rightarrow> (string \<times> string) list \<Rightarrow> string option" where
  "exact_loop term [] = None"
| "exact_loop term ((val, text) # options) =
     (if term = lower (strip text) then Some val else exact_loop term options)"

fun partial_loop :: "string \<Rightarrow> (string \<times> string) list \<Rightarrow> string option" where
  "partial_loop term [] = None"
| "partial_loop term ((val, text) # options) =
     (if sublist term (lower (strip text)) then Some val else partial_loop term options)"

definition select_options :: "string \<Rightarrow> string \<Rightarrow> (string \<times> string) list option" where
  "select_options page_html field_name =
     (case search (select_re field_name) page_html of
        None \<Rightarrow> None
      | Some select_match \<Rightarrow>
          Some (map (\<lambda>m. (captured m 1, captured m 2)) (findall option_re (group select_match 1))))"

definition resolve_option :: "string \<Rightarrow> string \<Rightarrow> string \<Rightarrow> string" where
  "resolve_option page_html field_name org_text =
     (case select_options page_html field_name of
        None \<Rightarrow> org_text
      | Some options \<Rightarrow>
          (let term = lower org_text in
           case exact_loop term options of
             Some val \<Rightarrow> val
           | None \<Rightarrow> (case partial_loop term options of
                        Some val \<Rightarrow> val
                      | None \<Rightarrow> org_text)))"

definition resolve_org_code :: "string \<Rightarrow> string \<Rightarrow> string \<Rightarrow> string" where
  "resolve_org_code page_html form_id org_text =
     resolve_option page_html (form_id @ '':organization'') org_text"

section \<open>Session orchestrator\<close>

text \<open>
  A dict display with its entries in source order: a later entry with a key already
  present overwrites the value and keeps the key's position.
\<close>

definition dict_of :: "(string \<times> string) list \<Rightarrow> dict" where
  "dict_of kvs = foldl (\<lambda>d (k, v). AList.update k v d) [] kvs"

definition update_vs_re :: pattern where
  "update_vs_re = [plain (Lit ''<update''), plain (Plus is_space), plain (Lit ''id=''),
     plain (Cls quote), plain (Lit ''javax.faces.ViewState''), plain (Cls quote), plain (Lit ''>''),
     plain (Star is_space), plain (Lit ''<![CDATA[''), grp 1 (Plus (\<lambda>c. c \<noteq> CHR '']'')),
     plain (Lit '']]>'')]"

text \<open>
  The dicts \<^verbatim>\<open>reset_data\<close> and \<^verbatim>\<open>search_data\<close> of \<^verbatim>\<open>ajax_search\<close>, for the view-state
  \<open>vs\<close> read from \<^verbatim>\<open>tokens["javax.faces.ViewState"]\<close>.
\<close>

definition reset_data :: "string \<Rightarrow> string \<Rightarrow> string \<Rightarrow> dict \<Rightarrow> dict" where
  "reset_data form_id reset_button_id vs tokens =
     (let reset_data = dict_of [
            (''javax.faces.partial.ajax'', ''true''),
            (''javax.faces.source'', reset_button_id),
            (''javax.faces.partial.execute'', ''@all''),
            (''javax.faces.partial.render'', form_id),
            (reset_button_id, reset_button_id),
            (form_id, form_id),
            (''javax.faces.ViewState'', vs)]
      in case map_of tokens ''_csrf'' of
           Some csrf \<Rightarrow> AList.update ''_csrf'' csrf reset_data
         | None \<Rightarrow> reset_data)"

definition search_data :: "string \<Rightarrow> string \<Rightarrow> string option \<Rightarrow> string \<Rightarrow> dict \<Rightarrow> dict \<Rightarrow> dict" where
  "search_data form_id search_button_id results_form_id vs tokens form_fields =
     (let render_target = (case results_form_id of
                             None \<Rightarrow> form_id
                           | Some r \<Rightarrow> if r = [] then form_id else r);
          search_data = dict_of [
            (''javax.faces.partial.ajax'', ''true''),
            (''javax.faces.source'', search_button_id),
            (''javax.faces.partial.execute'', ''@all''),
            (''javax.faces.partial.render'', render_target),
            (search_button_id, search_button_id),
            (form_id, form_id),
            (''javax.faces.ViewState'', vs)];
          search_data = (case map_of tokens ''_csrf'' of
                           Some csrf \<Rightarrow> AList.update ''_csrf'' csrf search_data
                         | None \<Rightarrow> search_data)
      in foldl (\<lambda>d (key, value). AList.update key value d) search_data form_fields)"

text \<open>
  Step 2 of \<^verbatim>\<open>ajax_search\<close>: the reset POST, then the view-state of the tokens is
  overwritten when the response matches
  \<^verbatim>\<open><update\s+id=["']javax\.faces\.ViewState["']>\s*<!\[CDATA\[([^\]]+)\]\]>\<close>.
  Reading a key that a dict lacks raises \<^verbatim>\<open>KeyError\<close>; applying \<^verbatim>\<open>re.search\<close> to
  \<^verbatim>\<open>None\<close> raises \<^verbatim>\<open>TypeError\<close>.
\<close>

definition reset_step :: "network \<Rightarrow> string \<Rightarrow> string \<Rightarrow> string \<Rightarrow> dict \<Rightarrow> client \<Rightarrow> client \<times> (error + dict)" where
  "reset_step net page_url form_id reset_button_id tokens st =
     (case map_of tokens ''javax.faces.ViewState'' of
        None \<Rightarrow> (st, Inl KeyError)
      | Some vs \<Rightarrow>
          (case ajax_post net page_url (reset_data form_id reset_button_id vs tokens) st of
             (st2, Inl e) \<Rightarrow> (st2, Inl e)
           | (st2, Inr None) \<Rightarrow> (st2, Inl TypeError)
           | (st2, Inr (Some reset_response)) \<Rightarrow>
               (case search update_vs_re reset_response of
                  Some vs_match \<Rightarrow>
                    (st2, Inr (AList.update ''javax.faces.ViewState'' (group vs_match 1) tokens))
                | None \<Rightarrow> (st2, Inr tokens))))"

text \<open>Step 3 of \<^verbatim>\<open>ajax_search\<close>: the search POST and the unwrapping of its response.\<close>

definition search_step :: "network \<Rightarrow> string \<Rightarrow> string \<Rightarrow> string \<Rightarrow> dict \<Rightarrow> string option \<Rightarrow> dict \<Rightarrow> client \<Rightarrow> client \<times> (error + string)" where
  "search_step net page_url form_id search_button_id form_fields results_form_id tokens st =
     (case map_of tokens ''javax.faces.ViewState'' of
        None \<Rightarrow> (st, Inl KeyError)
      | Some vs \<Rightarrow>
          (case ajax_post net page_url
                  (search_data form_id search_button_id results_form_id vs tokens form_fields) st of
             (st3, Inl e) \<Rightarrow> (st3, Inl e)
           | (st3, Inr None) \<Rightarrow> (st3, Inl TypeError)
           | (st3, Inr (Some search_response)) \<Rightarrow>
               (st3, Inr (parse_ajax_response search_response))))"

text \<open>
  \<^verbatim>\<open>ajax_search\<close>. It also returns the field mapping as it submits it, which the
  Python code leaves in the caller's dict.
\<close>

definition resolved_fields :: "string \<Rightarrow> string \<Rightarrow> dict \<Rightarrow> dict" where
  "resolved_fields page_html form_id form_fields =
     (let org_field = form_id @ '':organization'' in
      case map_of form_fields org_field of
        Some org_text \<Rightarrow>
          AList.update org_field (resolve_org_code page_html form_id org_text) form_fields
      | None \<Rightarrow> form_fields)"

definition ajax_search :: "network \<Rightarrow> string \<Rightarrow> string \<Rightarrow> string \<Rightarrow> dict \<Rightarrow> string option \<Rightarrow> client \<Rightarrow> client \<times> (error + string)" where
  "ajax_search net page_url form_id search_button_id form_fields results_form_id st =
     (case get net page_url st of
        (st1, Inl e) \<Rightarrow> (st1, Inl e)
      | (st1, Inr None) \<Rightarrow> (st1, Inl TypeError)
      | (st1, Inr (Some page_html)) \<Rightarrow>
          (let tokens = extract_tokens page_html in
           if map_of tokens ''javax.faces.ViewState'' = None
           then (st1, Inl (RuntimeError ''Could not extract ViewState from search page''))
           else
             (let form_fields = resolved_fields page_html form_id form_fields;
                  reset_button_id = find_reset_button page_html form_id
              in case (case reset_button_id of
                         None \<Rightarrow> (st1, Inr tokens)
                       | Some rid \<Rightarrow>
                           if rid = [] then (st1, Inr tokens)
                           else reset_step net page_url form_id rid tokens st1) of
                   (st2, Inl e) \<Rightarrow> (st2, Inl e)
                 | (st2, Inr tokens) \<Rightarrow>
                     search_step net page_url form_id search_button_id form_fields
                       results_form_id tokens st2)))"

section \<open>Record extractors\<close>

text \<open>
  \<^verbatim>\<open>strip_tags\<close>. \<^verbatim>\<open>html.unescape\<close> belongs to Python's standard library; every extractor
  takes it as the parameter \<open>unescape\<close>. On text without an ampersand it is the identity,
  \<open>no_entities\<close>.
\<close>

definition no_entities :: "string \<Rightarrow> string" where
  "no_entities text = text"

definition tag_re :: pattern where
  "tag_re = [plain (Lit ''<''), plain (Plus not_gt), plain (Lit ''>'')]"

definition spaces_re :: pattern where
  "spaces_re = [plain (Plus is_space)]"

definition strip_tags :: "(string \<Rightarrow> string) \<Rightarrow> string \<Rightarrow> string" where
  "strip_tags unescape text =
     (let clean = sub tag_re '' '' text;
          clean = unescape clean;
          clean = strip (sub spaces_re '' '' clean)
      in clean)"

text \<open>
  The row and cell patterns \<^verbatim>\<open><tr[^>]*data-ri="[^"]*"[^>]*>(.*?)</tr>\<close> and
  \<^verbatim>\<open><td[^>]*>(.*?)</td>\<close>, both with \<^verbatim>\<open>DOTALL | IGNORECASE\<close>.
\<close>

definition row_re :: pattern where
  "row_re = [plain (LitI ''<tr''), plain (Star not_gt), plain (LitI (''data-ri='' @ [CHR 0x22])),
     plain (Star not_dquote), plain (LitI [CHR 0x22]), plain (Star not_gt), plain (LitI ''>''),
     grp 1 (Lazy any_char), plain (LitI ''</tr>'')]"

definition td_re :: pattern where
  "td_re = [plain (LitI ''<td''), plain (Star not_gt), plain (LitI ''>''), grp 1 (Lazy any_char),
     plain (LitI ''</td>'')]"

text \<open>A list index out of range raises \<^verbatim>\<open>IndexError\<close>.\<close>

definition item :: "'a list \<Rightarrow> nat \<Rightarrow> error + 'a" where
  "item xs i = (if i < length xs then Inr (xs ! i) else Inl IndexError)"

text \<open>
  A run of assignments \<^verbatim>\<open>result[key] = cell_texts[i]\<close>, in order, stopping at the first
  index out of range.
\<close>

fun set_items :: "dict \<Rightarrow> (string \<times> nat) list \<Rightarrow> string list \<Rightarrow> error + dict" where
  "set_items result [] cell_texts = Inr result"
| "set_items result ((key, i) # others) cell_texts =
     (case item cell_texts i of
        Inl e \<Rightarrow> Inl e
      | Inr v \<Rightarrow> set_items (AList.update key v result) others cell_texts)"

text \<open>
  The body of the loop of \<^verbatim>\<open>parse_bid_search_results\<close> for one row block: \<open>None\<close> is
  \<^verbatim>\<open>continue\<close>, \<open>Some (Inr result)\<close> is \<^verbatim>\<open>results.append(result)\<close>.
\<close>

definition bid_row :: "(string \<Rightarrow> string) \<Rightarrow> string \<Rightarrow> (error + dict) option" where
  "bid_row unescape block =
     (let cells = map (\<lambda>m. captured m 1) (findall td_re block) in
      if length cells < 6 then None
      else Some
        (let cell_texts = map (strip_tags unescape) cells in
         case set_items [] [(''bid_number'', 0)] cell_texts of
           Inl e \<Rightarrow> Inl e
         | Inr result \<Rightarrow>
             if length cells \<ge> 12
             then set_items result [(''organization'', 2), (''buyer'', 5), (''description'', 6),
                    (''open_date'', 7), (''status'', 10)] cell_texts
             else if length cells \<ge> 6
             then set_items result [(''description'', 1), (''organization'', 2),
                    (''open_date'', 4)] cell_texts
             else Inr result))"

text \<open>The loop over the row blocks, shared by the three list extractors.\<close>

fun rows_loop :: "(string \<Rightarrow> (error + dict) option) \<Rightarrow> string list \<Rightarrow> error + dict list" where
  "rows_loop row [] = Inr []"
| "rows_loop row (block # blocks) =
     (case row block of
        None \<Rightarrow> rows_loop row blocks
      | Some (Inl e) \<Rightarrow> Inl e
      | Some (Inr result) \<Rightarrow>
          (case rows_loop row blocks of
             Inl e \<Rightarrow> Inl e
           | Inr results \<Rightarrow> Inr (result # results)))"

definition parse_bid_search_results :: "(string \<Rightarrow> string) \<Rightarrow> string \<Rightarrow> error + dict list" where
  "parse_bid_search_results unescape html_text =
     rows_loop (bid_row unescape) (map (\<lambda>m. captured m 1) (findall row_re html_text))"

definition blanket_row :: "(string \<Rightarrow> string) \<Rightarrow> string \<Rightarrow> (error + dict) option" where
  "blanket_row unescape block =
     (let cells = map (\<lambda>m. captured m 1) (findall td_re block) in
      if length cells < 5 then None
      else Some
        (let cell_texts = map (strip_tags unescape) cells in
         case set_items [] [(''contract_number'', 0)] cell_texts of
           Inl e \<Rightarrow> Inl e
         | Inr result \<Rightarrow>
             if length cells \<ge> 12
             then set_items result [(''bid_number'', 2), (''description'', 4), (''vendor'', 5),
                    (''type'', 6), (''amount'', 7), (''organization'', 8), (''status'', 9),
                    (''start_date'', 10), (''end_date'', 11)] cell_texts
             else if length cells \<ge> 5
             then set_items result [(''description'', 4)] cell_texts
             else Inr result))"

definition parse_blanket_search_results :: "(string \<Rightarrow> string) \<Rightarrow> string \<Rightarrow> error + dict list" where
  "parse_blanket_search_results unescape html_text =
     rows_loop (blanket_row unescape) (map (\<lambda>m. captured m 1) (findall row_re html_text))"

text \<open>
  The vendor row: the identifier comes from \<^verbatim>\<open>vendorId=([^&"']+)\<close> on the block; a row
  whose \<^verbatim>\<open>vendor_name\<close> is missing or empty is not appended.
\<close>

definition vendor_id_re :: pattern where
  "vendor_id_re = [plain (LitI ''vendorId=''), grp 1 (Plus (\<lambda>c. c \<noteq> CHR ''&'' \<and> \<not> quote c))]"

definition vendor_row :: "(string \<Rightarrow> string) \<Rightarrow> string \<Rightarrow> (error + dict) option" where
  "vendor_row unescape block =
     (let cells = map (\<lambda>m. captured m 1) (findall td_re block) in
      if length cells < 3 then None
      else
        (let cell_texts = map (strip_tags unescape) cells;
             vendor_id_match = search vendor_id_re block;
             result = (case vendor_id_match of
                         Some m \<Rightarrow> AList.update ''vendor_id'' (group m 1) []
                       | None \<Rightarrow> []);
             filled =
               (if length cells \<ge> 9
                then set_items result [(''vendor_name'', 2), (''address'', 3), (''city'', 4),
                       (''state'', 5), (''zip'', 6), (''contact'', 7), (''phone'', 8)] cell_texts
                else if length cells \<ge> 3
                then (case item cell_texts 2 of
                        Inl e \<Rightarrow> Inl e
                      | Inr name \<Rightarrow>
                          if name \<noteq> [] then Inr (AList.update ''vendor_name'' name result)
                          else set_items result [(''vendor_name'', 0)] cell_texts)
                else Inr result)
         in case filled of
              Inl e \<Rightarrow> Some (Inl e)
            | Inr result \<Rightarrow>
                (case map_of result ''vendor_name'' of
                   None \<Rightarrow> None
                 | Some name \<Rightarrow> if name = [] then None else Some (Inr result))))"

definition parse_vendor_search_results :: "(string \<Rightarrow> string) \<Rightarrow> string \<Rightarrow> error + dict list" where
  "parse_vendor_search_results unescape html_text =
     rows_loop (vendor_row unescape) (map (\<lambda>m. captured m 1) (findall row_re html_text))"

section \<open>Detail extractors\<close>

text \<open>
  A detail record maps a field name to a string, to a list of strings
  (\<^verbatim>\<open>unspsc_codes\<close>) or to a list of dicts (\<^verbatim>\<open>attachments\<close>, \<^verbatim>\<open>items\<close>).
\<close>

datatype val = Str string | Strs "string list" | Dicts "dict list"















section \<open>Search operations\<close>

text \<open>
  The arguments \<^verbatim>\<open>argparse\<close> hands to the search functions. A field is \<open>None\<close> when the
  attribute is missing or \<^verbatim>\<open>None\<close>; \<^verbatim>\<open>--limit\<close> has \<^verbatim>\<open>type=int\<close>, so any integer.
\<close>

record args =
  arg_search :: "string option"
  arg_org :: "string option"
  arg_open :: bool
  arg_vendor :: "string option"
  arg_exclude :: "string option"
  arg_limit :: "int option"

definition BASE_URL :: string where
  "BASE_URL = ''https://www.commbuys.com/bso''"

definition BID_SEARCH_PAGE :: string where
  "BID_SEARCH_PAGE = BASE_URL @ ''/view/search/external/advancedSearchBid.xhtml''"

definition BLANKET_SEARCH_PAGE :: string where
  "BLANKET_SEARCH_PAGE = BASE_URL @ ''/view/search/external/advancedSearchContractBlanket.xhtml''"

definition VENDOR_SEARCH_PAGE :: string where
  "VENDOR_SEARCH_PAGE = BASE_URL @ ''/view/search/external/advancedSearchVendor.xhtml''"

text \<open>\<^verbatim>\<open>if getattr(args, name, None): form_fields[key] = value\<close>.\<close>

definition put_if :: "string \<Rightarrow> string option \<Rightarrow> dict \<Rightarrow> dict" where
  "put_if key v form_fields =
     (case v of
        None \<Rightarrow> form_fields
      | Some text \<Rightarrow> if text = [] then form_fields else AList.update key text form_fields)"

text \<open>
  \<^verbatim>\<open>json.dumps\<close> of a dict of strings with the default \<^verbatim>\<open>ensure_ascii\<close>: every character
  outside the printable ASCII range, the double quote and the backslash are escaped.
\<close>

definition hex_digit :: "nat \<Rightarrow> char" where
  "hex_digit n = ''0123456789abcdef'' ! (n mod 16)"

definition json_char :: "char \<Rightarrow> string" where
  "json_char c =
     (let n = (of_char c :: nat) in
      if c = CHR 0x5C then [CHR 0x5C, CHR 0x5C]
      else if c = CHR 0x22 then [CHR 0x5C, CHR 0x22]
      else if n = 8 then [CHR 0x5C, CHR ''b'']
      else if n = 12 then [CHR 0x5C, CHR ''f'']
      else if n = 10 then [CHR 0x5C, CHR ''n'']
      else if n = 13 then [CHR 0x5C, CHR ''r'']
      else if n = 9 then [CHR 0x5C, CHR ''t'']
      else if 32 \<le> n \<and> n \<le> 126 then [c]
      else [CHR 0x5C, CHR ''u'', CHR ''0'', CHR ''0'', hex_digit (n div 16), hex_digit n])"

definition json_string :: "string \<Rightarrow> string" where
  "json_string text = [CHR 0x22] @ concat (map json_char text) @ [CHR 0x22]"

definition json_dumps :: "dict \<Rightarrow> string" where
  "json_dumps r = ''{'' @ join '', '' (map (\<lambda>(k, v). json_string k @ '': '' @ json_string v) r) @ ''}''"

text \<open>\<^verbatim>\<open>results[:limit]\<close> for an integer \<^verbatim>\<open>limit\<close>: a negative one counts from the end.\<close>

definition slice_to :: "int \<Rightarrow> 'a list \<Rightarrow> 'a list" where
  "slice_to limit results =
     (if 0 \<le> limit then take (nat limit) results
      else take (length results - nat (- limit)) results)"

text \<open>The exclusion filter and the limit, the same statements in the three search functions.\<close>

definition exclude_and_limit :: "args \<Rightarrow> dict list \<Rightarrow> dict list" where
  "exclude_and_limit args results =
     (let results = (case arg_exclude args of
                       None \<Rightarrow> results
                     | Some exclude \<Rightarrow>
                         if exclude = [] then results
                         else (let term = lower exclude
                               in filter (\<lambda>r. \<not> sublist term (lower (json_dumps r))) results));
          limit = (case arg_limit args of
                     None \<Rightarrow> 100
                   | Some n \<Rightarrow> if n = 0 then 100 else n)
      in slice_to limit results)"

text \<open>The field mappings the three search functions build from the arguments.\<close>

definition bid_form_fields :: "args \<Rightarrow> dict" where
  "bid_form_fields args =
     (let form_fields = [];
          form_fields = put_if ''bidSearchForm:desc'' (arg_search args) form_fields;
          form_fields = put_if ''bidSearchForm:organization'' (arg_org args) form_fields;
          form_fields = (if arg_open args
                         then AList.update ''bidSearchForm:openBids'' ''true'' form_fields
                         else form_fields)
      in form_fields)"

definition blanket_form_fields :: "args \<Rightarrow> dict" where
  "blanket_form_fields args =
     (let form_fields = [];
          form_fields = put_if ''contractBlanketSearchForm:desc'' (arg_search args) form_fields;
          form_fields = put_if ''contractBlanketSearchForm:organization'' (arg_org args) form_fields;
          form_fields = put_if ''contractBlanketSearchForm:vendorName'' (arg_vendor args) form_fields
      in form_fields)"

definition vendor_form_fields :: "args \<Rightarrow> dict" where
  "vendor_form_fields args =
     (let form_fields = [];
          form_fields = put_if ''vendorSearchForm:vendorName'' (arg_search args) form_fields
      in form_fields)"

definition search_bids :: "network \<Rightarrow> (string \<Rightarrow> string) \<Rightarrow> args \<Rightarrow> client \<Rightarrow> client \<times> (error + dict list)" where
  "search_bids net unescape args st =
     (case ajax_search net BID_SEARCH_PAGE ''bidSearchForm'' ''bidSearchForm:btnBidSearch''
             (bid_form_fields args) (Some ''bidSearchResultsForm'') st of
           (st', Inl e) \<Rightarrow> (st', Inl e)
         | (st', Inr result_html) \<Rightarrow>
             (case parse_bid_search_results unescape result_html of
                Inl e \<Rightarrow> (st', Inl e)
              | Inr results \<Rightarrow> (st', Inr (exclude_and_limit args results))))"

definition search_blankets :: "network \<Rightarrow> (string \<Rightarrow> string) \<Rightarrow> args \<Rightarrow> client \<Rightarrow> client \<times> (error + dict list)" where
  "search_blankets net unescape args st =
     (case ajax_search net BLANKET_SEARCH_PAGE ''contractBlanketSearchForm''
             ''contractBlanketSearchForm:btnPoSearch'' (blanket_form_fields args)
             (Some ''contractBlanketSearchResultsForm'') st of
           (st', Inl e) \<Rightarrow> (st', Inl e)
         | (st', Inr result_html) \<Rightarrow>
             (case parse_blanket_search_results unescape result_html of
                Inl e \<Rightarrow> (st', Inl e)
              | Inr results \<Rightarrow> (st', Inr (exclude_and_limit args results))))"

definition search_vendors :: "network \<Rightarrow> (string \<Rightarrow> string) \<Rightarrow> args \<Rightarrow> client \<Rightarrow> client \<times> (error + dict list)" where
  "search_vendors net unescape args st =
     (case ajax_search net VENDOR_SEARCH_PAGE ''vendorSearchForm''
             ''vendorSearchForm:btnVendorSearch'' (vendor_form_fields args)
             (Some ''vendorSearchResultsForm'') st of
           (st', Inl e) \<Rightarrow> (st', Inl e)
         | (st', Inr result_html) \<Rightarrow>
             (case parse_vendor_search_results unescape result_html of
                Inl e \<Rightarrow> (st', Inl e)
              | Inr results \<Rightarrow> (st', Inr (exclude_and_limit args results))))"

section \<open>The statements of the specification, in its words\<close>

text \<open>
  The limit a search applies: the \<^verbatim>\<open>limit\<close> argument, and 100 when it is absent or
  falsy. A record is excluded when an exclude term is given and the lower-cased JSON
  serialization of the record contains the lower-cased term.
\<close>

definition effective_limit :: "args \<Rightarrow> int" where
  "effective_limit args = (case arg_limit args of None \<Rightarrow> 100 | Some n \<Rightarrow> if n = 0 then 100 else n)"

definition excluded :: "args \<Rightarrow> dict \<Rightarrow> bool" where
  "excluded args r =
     (case arg_exclude args of
        None \<Rightarrow> False
      | Some exclude \<Rightarrow> exclude \<noteq> [] \<and> sublist (lower exclude) (lower (json_dumps r)))"





section \<open>Observing a run, and canned pages\<close>

text \<open>The value a field has in the data of the last request a client has sent.\<close>

definition submitted_field :: "client \<Rightarrow> string \<Rightarrow> string option" where
  "submitted_field st key =
     (case sent st of
        [] \<Rightarrow> None
      | _ \<Rightarrow> (case req_data (last (sent st)) of None \<Rightarrow> None | Some d \<Rightarrow> map_of d key))"

definition fresh_client :: client where
  "fresh_client = \<lparr>sent = [], slept = []\<rparr>"

text \<open>
  A canned bid search page with the view-state \<^verbatim>\<open>VS1\<close> and the reset action
  \<^verbatim>\<open>bidSearchForm:j_idt55\<close>, a reset response that rotates the view-state to \<^verbatim>\<open>VS2\<close>, and
  a server that answers a request without data with the page, the POST of that reset
  action with the reset response and every other POST with the results.
\<close>

definition bid_page :: string where
  \<open>bid_page = ''<input name="javax.faces.ViewState" value="VS1"/><script>searchNew = function() {return PrimeFaces.ab({s:"bidSearchForm:j_idt55"})}</script>''\<close>

definition reset_response :: string where
  \<open>reset_response = ''<update id="javax.faces.ViewState"><![CDATA[VS2]]></update>''\<close>

definition canned_server :: "string \<Rightarrow> string \<Rightarrow> network" where
  "canned_server page results h rq =
     (case req_data rq of
        None \<Rightarrow> Body page
      | Some d \<Rightarrow>
          if map_of d ''javax.faces.source'' = Some ''bidSearchForm:j_idt55''
          then Body reset_response
          else Body results)"

text \<open>
  A page without any hidden field, a bid search page with an organization dropdown, and a
  page of the contract search with a vendor dropdown.
\<close>

definition bare_page :: string where
  \<open>bare_page = ''<html><body><h1>Maintenance</h1></body></html>''\<close>

definition org_page :: string where
  \<open>org_page = ''<select name="bidSearchForm:organization"><option value="1020">Department of Conservation</option></select><input name="javax.faces.ViewState" value="VS1"/>''\<close>

definition blanket_page :: string where
  \<open>blanket_page = ''<select name="contractBlanketSearchForm:vendorName"><option value="V1">Acme</option></select><input name="javax.faces.ViewState" value="VS1"/>''\<close>

definition plain_page :: string where
  \<open>plain_page = ''<input name="javax.faces.ViewState" value="VS1"/>''\<close>

definition vendor_results :: string where
  \<open>vendor_results = ''<![CDATA[<tr data-ri="0"><td>1</td><td>1</td><td>Acme</td></tr><tr data-ri="1"><td>2</td><td>2</td><td>Bolt</td></tr>]]>''\<close>

definition limit_args :: "int \<Rightarrow> args" where
  "limit_args n = \<lparr>arg_search = Some ''a'', arg_org = None, arg_open = False, arg_vendor = None,
     arg_exclude = None, arg_limit = Some n\<rparr>"




definition vendor_args :: args where
  "vendor_args = \<lparr>arg_search = None, arg_org = None, arg_open = False, arg_vendor = Some ''Acme'',
     arg_exclude = None, arg_limit = Some 100\<rparr>"

section \<open>Retry policy\<close>

lemma upt_MAX_RETRIES: "[0 ..< MAX_RETRIES] = [0, 1, 2]"
  by (simp add: MAX_RETRIES_def upt_rec)

lemma attempt_loop_retry:
  assumes "transient (net (sent st) rq)" and "attempt < MAX_RETRIES - 1"
  shows "attempt_loop net rq (attempt # rest) st =
    attempt_loop net rq rest (st\<lparr>sent := sent st @ [rq], slept := slept st @ [2 ^ (attempt + 1)]\<rparr>)"
  using assms by (cases "net (sent st) rq") (simp_all add: Let_def)

lemma attempt_loop_give_up:
  assumes "transient (net (sent st) rq)" and "\<not> attempt < MAX_RETRIES - 1"
  shows "attempt_loop net rq (attempt # rest) st =
    (st\<lparr>sent := sent st @ [rq]\<rparr>, Inl (raised (net (sent st) rq)))"
  using assms by (cases "net (sent st) rq") (simp_all add: Let_def)

lemma attempt_loop_body:
  assumes "net (sent st) rq = Body b"
  shows "attempt_loop net rq (attempt # rest) st = (st\<lparr>sent := sent st @ [rq]\<rparr>, Inr (Some b))"
  using assms by (simp add: Let_def)

text \<open>
  C3. The three outcomes a call meets are those of its first, second and third attempt.
  When the first two are transient failures (HTTP 429/500/502/503/504 or a connection error)
  and the third succeeds, the call returns the third body, has sent three requests and has
  slept exactly twice, 2 then 4 seconds. When all three are transient failures, the error
  of the third attempt is raised as it is, after the same two sleeps.
\<close>

theorem make_request_retry_policy:
  assumes "rq = Request url data method"
    and "transient (net (sent st) rq)"
    and "transient (net (sent st @ [rq]) rq)"
    and "o3 = net (sent st @ [rq, rq]) rq"
  shows "(o3 = Body b \<longrightarrow>
            make_request net url data method st =
              (st\<lparr>sent := sent st @ [rq, rq, rq], slept := slept st @ [2, 4]\<rparr>, Inr (Some b)))
       \<and> (transient o3 \<longrightarrow>
            make_request net url data method st =
              (st\<lparr>sent := sent st @ [rq, rq, rq], slept := slept st @ [2, 4]\<rparr>, Inl (raised o3)))"
proof -
  let ?s1 = "st\<lparr>sent := sent st @ [rq], slept := slept st @ [2]\<rparr>"
  let ?s2 = "st\<lparr>sent := sent st @ [rq, rq], slept := slept st @ [2, 4]\<rparr>"
  have a1: "attempt_loop net rq [0, 1, 2] st = attempt_loop net rq [1, 2] ?s1"
    using attempt_loop_retry [of net st rq 0 "[1, 2]"] assms(2) by (simp add: MAX_RETRIES_def)
  have t2: "transient (net (sent ?s1) rq)"
    using assms(3) by simp
  have a2: "attempt_loop net rq [1, 2] ?s1 = attempt_loop net rq [2] ?s2"
    using attempt_loop_retry [of net ?s1 rq 1 "[2]"] t2 by (simp add: MAX_RETRIES_def)
  have o3: "net (sent ?s2) rq = o3"
    using assms(4) by simp
  have a3: "o3 = Body b \<Longrightarrow> attempt_loop net rq [2] ?s2 =
        (st\<lparr>sent := sent st @ [rq, rq, rq], slept := slept st @ [2, 4]\<rparr>, Inr (Some b))"
    using attempt_loop_body [of net ?s2 rq b 2 "[]"] o3 by simp
  have a4: "transient o3 \<Longrightarrow> attempt_loop net rq [2] ?s2 =
        (st\<lparr>sent := sent st @ [rq, rq, rq], slept := slept st @ [2, 4]\<rparr>, Inl (raised o3))"
    using attempt_loop_give_up [of net ?s2 rq 2 "[]"] o3 by (simp add: MAX_RETRIES_def)
  have m: "make_request net url data method st = attempt_loop net rq [0, 1, 2] st"
    by (simp add: make_request_def assms(1) upt_MAX_RETRIES)
  show ?thesis using a1 a2 a3 a4 m by simp
qed

theorem make_request_retry_policy_witness:
  "make_request (\<lambda>h r. if length h < 2 then HTTPError 503 else Body ''ok'') ''u'' None GET
       \<lparr>sent = [], slept = []\<rparr> =
     (\<lparr>sent = [Request ''u'' None GET, Request ''u'' None GET, Request ''u'' None GET],
       slept = [2, 4]\<rparr>, Inr (Some ''ok''))
   \<and> make_request (\<lambda>h r. if length h < 2 then HTTPError 503 else URLError ''down'') ''u'' None GET
       \<lparr>sent = [], slept = []\<rparr> =
     (\<lparr>sent = [Request ''u'' None GET, Request ''u'' None GET, Request ''u'' None GET],
       slept = [2, 4]\<rparr>, Inl (URLErr ''down''))"
  using make_request_retry_policy [of "Request ''u'' None GET" "''u''" None GET
      "\<lambda>h r. if length h < 2 then HTTPError 503 else Body ''ok''"
      "\<lparr>sent = [], slept = []\<rparr>" "Body ''ok''" "''ok''"]
    make_request_retry_policy [of "Request ''u'' None GET" "''u''" None GET
      "\<lambda>h r. if length h < 2 then HTTPError 503 else URLError ''down''"
      "\<lparr>sent = [], slept = []\<rparr>" "URLError ''down''" "''ok''"]
  by (simp add: retry_codes_def)

section \<open>What one orchestration sends\<close>

lemma attempt_loop_sent:
  "attempt_loop net rq as st = (st', r) \<Longrightarrow>
     \<exists>n. (as \<noteq> [] \<longrightarrow> 0 < n) \<and> n \<le> length as \<and> sent st' = sent st @ replicate n rq"
proof (induction as arbitrary: st)
  case Nil
  then show ?case by simp
next
  case (Cons a as)
  let ?st1 = "st\<lparr>sent := sent st @ [rq]\<rparr>"
  let ?st2 = "?st1\<lparr>slept := slept ?st1 @ [2 ^ (a + 1)]\<rparr>"
  consider (stop) "st' = ?st1" | (go) "attempt_loop net rq as ?st2 = (st', r)"
    using Cons.prems by (cases "net (sent st) rq") (auto simp: Let_def split: if_splits)
  then show ?case
  proof cases
    case stop
    then have "sent st' = sent st @ replicate 1 rq" by simp
    then show ?thesis by (intro exI [of _ 1]) simp
  next
    case go
    from Cons.IH [OF go] obtain n where n: "n \<le> length as" "sent st' = sent ?st2 @ replicate n rq"
      by blast
    then have "sent st' = sent st @ replicate (Suc n) rq"
      by (simp add: replicate_app_Cons_same)
    with n(1) show ?thesis by (intro exI [of _ "Suc n"]) simp
  qed
qed

lemma attempt_loop_returns:
  "snd (attempt_loop net rq [0 ..< MAX_RETRIES] st) \<noteq> Inr None"
proof -
  have "snd (attempt_loop net rq [0, 1, 2] st) \<noteq> Inr None"
    by (simp add: Let_def MAX_RETRIES_def split: outcome.splits)
  then show ?thesis by (simp add: upt_MAX_RETRIES)
qed

lemma map_of_dict_fold:
  "map_of (foldl (\<lambda>d (k, v). AList.update k v d) d kvs) = map_of d ++ map_of (rev kvs)"
  by (induction kvs arbitrary: d) (auto simp: update_conv' map_add_def fun_eq_iff split: option.splits)


lemma get_sent:
  assumes "get net url st = (st1, r)"
  shows "\<exists>n. 0 < n \<and> n \<le> MAX_RETRIES \<and> sent st1 = sent st @ replicate n (Request url None GET)"
proof -
  from assms have "attempt_loop net (Request url None GET) [0 ..< MAX_RETRIES] st = (st1, r)"
    by (simp add: get_def make_request_def)
  from attempt_loop_sent [OF this] show ?thesis by (auto simp: upt_MAX_RETRIES MAX_RETRIES_def)
qed

lemma ajax_post_sent:
  assumes "ajax_post net url d st = (st1, r)"
  shows "\<exists>n. 0 < n \<and> sent st1 = sent st @ replicate n (Request url (Some d) AJAX_POST)"
proof -
  from assms have "attempt_loop net (Request url (Some d) AJAX_POST) [0 ..< MAX_RETRIES] st = (st1, r)"
    by (simp add: ajax_post_def)
  from attempt_loop_sent [OF this] show ?thesis by (auto simp: upt_MAX_RETRIES)
qed

lemma ajax_post_returns: "ajax_post net url d st \<noteq> (st1, Inr None)"
  using attempt_loop_returns [of net "Request url (Some d) AJAX_POST" st]
  by (auto simp: ajax_post_def)

lemma dict_of_last:
  "map_of (dict_of (kvs @ [(k, v)])) k = Some v"
  by (simp add: dict_of_def update_conv')

lemma dict_of_snoc:
  "dict_of (kvs @ [(k, v)]) = AList.update k v (dict_of kvs)"
  by (simp add: dict_of_def)

lemma reset_data_view_state:
  "map_of (reset_data form_id rid vs tokens) ''javax.faces.ViewState'' = Some vs"
proof -
  let ?base = "dict_of [
            (''javax.faces.partial.ajax'', ''true''),
            (''javax.faces.source'', rid),
            (''javax.faces.partial.execute'', ''@all''),
            (''javax.faces.partial.render'', form_id),
            (rid, rid),
            (form_id, form_id)]"
  have r: "reset_data form_id rid vs tokens =
      (case map_of tokens ''_csrf'' of
         Some csrf \<Rightarrow> AList.update ''_csrf'' csrf (AList.update ''javax.faces.ViewState'' vs ?base)
       | None \<Rightarrow> AList.update ''javax.faces.ViewState'' vs ?base)"
    using dict_of_snoc [of "[
            (''javax.faces.partial.ajax'', ''true''),
            (''javax.faces.source'', rid),
            (''javax.faces.partial.execute'', ''@all''),
            (''javax.faces.partial.render'', form_id),
            (rid, rid),
            (form_id, form_id)]" "''javax.faces.ViewState''" vs]
    by (simp add: reset_data_def Let_def)
  show ?thesis unfolding r by (simp add: update_conv' split: option.splits)
qed

lemma search_data_fields:
  "map_of (search_data form_id sbid rfid vs tokens form_fields) =
     map_of (search_data form_id sbid rfid vs tokens []) ++ map_of (rev form_fields)"
  by (simp add: search_data_def Let_def map_of_dict_fold)

lemma search_data_view_state:
  assumes "''javax.faces.ViewState'' \<notin> fst ` set form_fields"
  shows "map_of (search_data form_id sbid rfid vs tokens form_fields) ''javax.faces.ViewState'' = Some vs"
proof -
  let ?rt = "(case rfid of None \<Rightarrow> form_id | Some r \<Rightarrow> if r = [] then form_id else r)"
  let ?base = "dict_of [
            (''javax.faces.partial.ajax'', ''true''),
            (''javax.faces.source'', sbid),
            (''javax.faces.partial.execute'', ''@all''),
            (''javax.faces.partial.render'', ?rt),
            (sbid, sbid),
            (form_id, form_id)]"
  have g: "dict_of [
            (''javax.faces.partial.ajax'', ''true''),
            (''javax.faces.source'', sbid),
            (''javax.faces.partial.execute'', ''@all''),
            (''javax.faces.partial.render'', rt),
            (sbid, sbid),
            (form_id, form_id),
            (''javax.faces.ViewState'', vs)] =
      AList.update ''javax.faces.ViewState'' vs (dict_of [
            (''javax.faces.partial.ajax'', ''true''),
            (''javax.faces.source'', sbid),
            (''javax.faces.partial.execute'', ''@all''),
            (''javax.faces.partial.render'', rt),
            (sbid, sbid),
            (form_id, form_id)])" for rt
    using dict_of_snoc [of "[
            (''javax.faces.partial.ajax'', ''true''),
            (''javax.faces.source'', sbid),
            (''javax.faces.partial.execute'', ''@all''),
            (''javax.faces.partial.render'', rt),
            (sbid, sbid),
            (form_id, form_id)]" "''javax.faces.ViewState''" vs]
    by simp
  have r: "search_data form_id sbid rfid vs tokens [] =
      (case map_of tokens ''_csrf'' of
         Some csrf \<Rightarrow> AList.update ''_csrf'' csrf (AList.update ''javax.faces.ViewState'' vs ?base)
       | None \<Rightarrow> AList.update ''javax.faces.ViewState'' vs ?base)"
    by (simp add: search_data_def Let_def g)
  have b: "map_of (search_data form_id sbid rfid vs tokens []) ''javax.faces.ViewState'' = Some vs"
    unfolding r by (simp add: update_conv' split: option.splits)
  have c: "map_of (rev form_fields) ''javax.faces.ViewState'' = None"
    using assms by (simp add: map_of_eq_None_iff)
  show ?thesis by (subst search_data_fields) (simp add: map_add_def b c)
qed


lemma map_of_rev_distinct:
  "distinct (map fst xs) \<Longrightarrow> map_of (rev xs) = map_of xs"
proof (induction xs)
  case Nil
  then show ?case by simp
next
  case (Cons x xs)
  obtain k v where x: "x = (k, v)" by (cases x)
  from Cons.prems x have k: "k \<notin> dom (map_of xs)"
    by (simp add: dom_map_of_conv_image_fst)
  have "map_of (rev (x # xs)) = [k \<mapsto> v] ++ map_of (rev xs)"
    by (simp add: x)
  also have "\<dots> = [k \<mapsto> v] ++ map_of xs"
    using Cons by simp
  also have "\<dots> = map_of xs ++ [k \<mapsto> v]"
    using k by (intro map_add_comm) simp
  also have "\<dots> = map_of (x # xs)"
    by (simp add: x)
  finally show ?case .
qed

lemma search_data_field:
  assumes "distinct (map fst form_fields)" and "key \<in> fst ` set form_fields"
  shows "map_of (search_data form_id sbid rfid vs tokens form_fields) key = map_of form_fields key"
proof -
  from assms(2) obtain v where "map_of form_fields key = Some v"
    by (metis map_of_eq_None_iff not_Some_eq)
  then show ?thesis
    using assms(1) by (subst search_data_fields) (simp add: map_add_def map_of_rev_distinct)
qed

lemma resolved_fields_keys:
  "fst ` set (resolved_fields page_html form_id form_fields) = fst ` set form_fields"
proof (cases "map_of form_fields (form_id @ '':organization'')")
  case None
  then show ?thesis by (simp add: resolved_fields_def)
next
  case (Some v)
  then have "form_id @ '':organization'' \<in> fst ` set form_fields"
    by (metis map_of_eq_None_iff option.distinct(1))
  with Some show ?thesis
    by (auto simp: resolved_fields_def update_keys simp flip: set_map)
qed

lemma resolved_fields_distinct:
  "distinct (map fst form_fields) \<Longrightarrow>
     distinct (map fst (resolved_fields page_html form_id form_fields))"
  by (simp add: resolved_fields_def Let_def distinct_update split: option.splits)

lemma resolved_fields_lookup:
  "map_of (resolved_fields page_html form_id form_fields) key =
     (if key = form_id @ '':organization''
      then map_option (resolve_org_code page_html form_id) (map_of form_fields key)
      else map_of form_fields key)"
  by (simp add: resolved_fields_def Let_def update_conv' split: option.splits)

lemma ajax_search_fetched:
  assumes "get net page_url st = (st1, Inr (Some page_html))"
    and "map_of (extract_tokens page_html) ''javax.faces.ViewState'' = Some vs1"
  shows "ajax_search net page_url form_id sbid form_fields rfid st =
     (case (case find_reset_button page_html form_id of
              None \<Rightarrow> (st1, Inr (extract_tokens page_html))
            | Some rid \<Rightarrow>
                if rid = [] then (st1, Inr (extract_tokens page_html))
                else reset_step net page_url form_id rid (extract_tokens page_html) st1) of
        (st2, Inl e) \<Rightarrow> (st2, Inl e)
      | (st2, Inr tokens) \<Rightarrow>
          search_step net page_url form_id sbid (resolved_fields page_html form_id form_fields)
            rfid tokens st2)"
  using assms by (simp add: ajax_search_def Let_def)

lemma search_step_sent:
  assumes "search_step net page_url form_id sbid ff rfid tokens st2 = (st3, result)"
    and "map_of tokens ''javax.faces.ViewState'' = Some vs"
  shows "\<exists>j. 0 < j \<and> sent st3 = sent st2 @
           replicate j (Request page_url (Some (search_data form_id sbid rfid vs tokens ff)) AJAX_POST)"
proof -
  obtain st' r where p: "ajax_post net page_url (search_data form_id sbid rfid vs tokens ff) st2 = (st', r)"
    by (cases "ajax_post net page_url (search_data form_id sbid rfid vs tokens ff) st2")
  with assms have "st3 = st'"
    by (auto simp: search_step_def split: sum.splits option.splits)
  with ajax_post_sent [OF p] show ?thesis by simp
qed

section \<open>The orchestration: protocol error, view-state rotation, resolved fields\<close>

text \<open>
  C2. When the GET of the search page returns a body from which no view-state token is
  extracted, the orchestration ends there with the \<^verbatim>\<open>RuntimeError\<close> of the protocol, which is
  not one of the transport errors \<open>HTTPErr\<close> and \<open>URLErr\<close>; the client state is the one the
  GET left, so the only requests sent are the attempts of that GET: no reset POST, no search
  POST and no further attempt.
\<close>

theorem missing_view_state_is_protocol_error:
  assumes "get net page_url st = (st1, Inr (Some page_html))"
    and "map_of (extract_tokens page_html) ''javax.faces.ViewState'' = None"
  shows "ajax_search net page_url form_id search_button_id form_fields results_form_id st =
           (st1, Inl (RuntimeError ''Could not extract ViewState from search page''))
       \<and> (\<exists>n. 0 < n \<and> n \<le> MAX_RETRIES \<and> sent st1 = sent st @ replicate n (Request page_url None GET))"
  using assms get_sent [OF assms(1)] by (simp add: ajax_search_def)

theorem missing_view_state_is_protocol_error_witness:
  "ajax_search (canned_server bare_page []) ''u'' ''bidSearchForm'' ''bidSearchForm:btnBidSearch''
       [] None fresh_client =
     (\<lparr>sent = [Request ''u'' None GET], slept = []\<rparr>,
      Inl (RuntimeError ''Could not extract ViewState from search page''))"
proof -
  have g: "get (canned_server bare_page []) ''u'' fresh_client =
      (\<lparr>sent = [Request ''u'' None GET], slept = []\<rparr>, Inr (Some bare_page))"
    by code_simp
  have t: "map_of (extract_tokens bare_page) ''javax.faces.ViewState'' = None"
    by code_simp
  show ?thesis
    using missing_view_state_is_protocol_error [OF g t] by simp
qed

text \<open>
  C1. The page fetched holds the view-state \<open>vs1\<close> and a reset action \<open>rid\<close>. After the
  GET the client sends the reset POST, whose data \<open>rd\<close> carries \<open>vs1\<close>, and then, once the
  reset response has arrived, the search POST, whose data carries the view-state of that
  response when it has one and \<open>vs1\<close> otherwise. Nothing else is sent. Each POST appears once
  per attempt of the retry loop. The field mapping is one of the data model: its names are
  namespaced by the form id, so none of them is \<^verbatim>\<open>javax.faces.ViewState\<close>.
\<close>

theorem reset_then_search_view_state:
  assumes "get net page_url st = (st1, Inr (Some page_html))"
    and "map_of (extract_tokens page_html) ''javax.faces.ViewState'' = Some vs1"
    and "find_reset_button page_html form_id = Some rid" and "rid \<noteq> []"
    and "''javax.faces.ViewState'' \<notin> fst ` set form_fields"
    and "rd = reset_data form_id rid vs1 (extract_tokens page_html)"
    and "ajax_post net page_url rd st1 = (st2, Inr (Some response))"
    and "vs = (case search update_vs_re response of Some m \<Rightarrow> group m 1 | None \<Rightarrow> vs1)"
    and "ajax_search net page_url form_id search_button_id form_fields results_form_id st = (st3, result)"
  shows "map_of rd ''javax.faces.ViewState'' = Some vs1
       \<and> (\<exists>k j sd. 0 < k \<and> 0 < j
            \<and> sent st3 = sent st1 @ replicate k (Request page_url (Some rd) AJAX_POST)
                                   @ replicate j (Request page_url (Some sd) AJAX_POST)
            \<and> map_of sd ''javax.faces.ViewState'' = Some vs)"
proof -
  let ?tokens = "extract_tokens page_html"
  let ?tokens' = "(case search update_vs_re response of
                     Some m \<Rightarrow> AList.update ''javax.faces.ViewState'' (group m 1) ?tokens
                   | None \<Rightarrow> ?tokens)"
  let ?ff = "resolved_fields page_html form_id form_fields"
  have rs: "reset_step net page_url form_id rid ?tokens st1 = (st2, Inr ?tokens')"
    using assms(2,6,7) by (simp add: reset_step_def split: option.splits)
  have vs: "map_of ?tokens' ''javax.faces.ViewState'' = Some vs"
    using assms(2,8) by (simp add: update_conv' split: option.splits)
  have ss: "search_step net page_url form_id search_button_id ?ff results_form_id ?tokens' st2 = (st3, result)"
    using ajax_search_fetched [OF assms(1,2), of form_id search_button_id form_fields results_form_id]
      assms(3,4,9) rs by simp
  from search_step_sent [OF ss vs] obtain j where j: "0 < j"
    "sent st3 = sent st2 @ replicate j (Request page_url
        (Some (search_data form_id search_button_id results_form_id vs ?tokens' ?ff)) AJAX_POST)"
    by blast
  from ajax_post_sent [OF assms(7)] obtain k where k: "0 < k"
    "sent st2 = sent st1 @ replicate k (Request page_url (Some rd) AJAX_POST)"
    by blast
  have f: "''javax.faces.ViewState'' \<notin> fst ` set ?ff"
    using assms(5) by (simp add: resolved_fields_keys)
  have "map_of (search_data form_id search_button_id results_form_id vs ?tokens' ?ff)
          ''javax.faces.ViewState'' = Some vs"
    by (rule search_data_view_state [OF f])
  moreover have "map_of rd ''javax.faces.ViewState'' = Some vs1"
    by (simp add: assms(6) reset_data_view_state)
  ultimately show ?thesis using j k by auto
qed

theorem reset_then_search_view_state_witness:
  "map_of (reset_data ''bidSearchForm'' ''bidSearchForm:j_idt55'' ''VS1'' (extract_tokens bid_page))
       ''javax.faces.ViewState'' = Some ''VS1''
   \<and> (\<exists>k j sd. 0 < k \<and> 0 < j
        \<and> sent (fst (ajax_search (canned_server bid_page []) ''u'' ''bidSearchForm''
                    ''bidSearchForm:btnBidSearch'' [(''bidSearchForm:desc'', ''road'')] None fresh_client)) =
            [Request ''u'' None GET]
            @ replicate k (Request ''u'' (Some (reset_data ''bidSearchForm'' ''bidSearchForm:j_idt55''
                             ''VS1'' (extract_tokens bid_page))) AJAX_POST)
            @ replicate j (Request ''u'' (Some sd) AJAX_POST)
        \<and> map_of sd ''javax.faces.ViewState'' = Some ''VS2'')"
proof -
  let ?net = "canned_server bid_page []"
  let ?rd = "reset_data ''bidSearchForm'' ''bidSearchForm:j_idt55'' ''VS1'' (extract_tokens bid_page)"
  let ?st1 = "\<lparr>sent = [Request ''u'' None GET], slept = []\<rparr>"
  let ?st2 = "\<lparr>sent = [Request ''u'' None GET, Request ''u'' (Some ?rd) AJAX_POST], slept = []\<rparr>"
  let ?run = "ajax_search ?net ''u'' ''bidSearchForm'' ''bidSearchForm:btnBidSearch''
                [(''bidSearchForm:desc'', ''road'')] None fresh_client"
  have g: "get ?net ''u'' fresh_client = (?st1, Inr (Some bid_page))"
    by code_simp
  have t: "map_of (extract_tokens bid_page) ''javax.faces.ViewState'' = Some ''VS1''"
    by code_simp
  have r: "find_reset_button bid_page ''bidSearchForm'' = Some ''bidSearchForm:j_idt55''"
    by code_simp
  have n: "''bidSearchForm:j_idt55'' \<noteq> []"
    by simp
  have f: "''javax.faces.ViewState'' \<notin> fst ` set [(''bidSearchForm:desc'', ''road'')]"
    by simp
  have p: "ajax_post ?net ''u'' ?rd ?st1 = (?st2, Inr (Some reset_response))"
    by code_simp
  have v: "''VS2'' = (case search update_vs_re reset_response of Some m \<Rightarrow> group m 1 | None \<Rightarrow> ''VS1'')"
    by code_simp
  have a: "?run = (fst ?run, snd ?run)"
    by simp
  show ?thesis
    using reset_then_search_view_state [OF g t r n f refl p v a] by simp
qed

text \<open>
  C6, as the code has it. Of the fields of the request only \<^verbatim>\<open>FORM:organization\<close> goes
  through the dropdown resolver, against the page just fetched; the search POST submits its
  resolved code, and submits every other field of the mapping, the vendor name among
  them, with the text the caller gave. A dict has each key once.
\<close>

theorem organization_field_resolved:
  assumes "get net page_url st = (st1, Inr (Some page_html))"
    and "map_of (extract_tokens page_html) ''javax.faces.ViewState'' = Some vs1"
    and "distinct (map fst form_fields)"
    and "ajax_search net page_url form_id search_button_id form_fields results_form_id st = (st3, Inr result)"
  shows "\<forall>key \<in> fst ` set form_fields.
           submitted_field st3 key =
             (if key = form_id @ '':organization''
              then map_option (resolve_org_code page_html form_id) (map_of form_fields key)
              else map_of form_fields key)"
proof -
  let ?ff = "resolved_fields page_html form_id form_fields"
  obtain st2 tokens where
    ss: "search_step net page_url form_id search_button_id ?ff results_form_id tokens st2 = (st3, Inr result)"
    using ajax_search_fetched [OF assms(1,2), of form_id search_button_id form_fields results_form_id]
      assms(4)
    by (auto split: prod.splits sum.splits)
  then obtain vs where vs: "map_of tokens ''javax.faces.ViewState'' = Some vs"
    by (auto simp: search_step_def split: option.splits)
  let ?sd = "search_data form_id search_button_id results_form_id vs tokens ?ff"
  from search_step_sent [OF ss vs] obtain j where j: "0 < j"
    "sent st3 = sent st2 @ replicate j (Request page_url (Some ?sd) AJAX_POST)"
    by blast
  then have l: "last (sent st3) = Request page_url (Some ?sd) AJAX_POST" and ne: "sent st3 \<noteq> []"
    by (cases j; simp add: replicate_append_same [symmetric] del: replicate_Suc)+
  have s: "submitted_field st3 key = map_of ?sd key" for key
    using l ne by (cases "sent st3") (simp_all add: submitted_field_def Request_def)
  have "map_of ?sd key =
          (if key = form_id @ '':organization''
           then map_option (resolve_org_code page_html form_id) (map_of form_fields key)
           else map_of form_fields key)" if "key \<in> fst ` set form_fields" for key
    using search_data_field [of ?ff key form_id search_button_id results_form_id vs tokens]
      resolved_fields_distinct [OF assms(3), of page_html form_id] that
    by (simp add: resolved_fields_keys resolved_fields_lookup)
  with s show ?thesis by simp
qed

theorem organization_field_resolved_witness:
  "submitted_field (fst (ajax_search (canned_server org_page []) ''u'' ''bidSearchForm''
       ''bidSearchForm:btnBidSearch''
       [(''bidSearchForm:organization'', ''conservation''), (''bidSearchForm:desc'', ''road'')]
       None fresh_client)) ''bidSearchForm:organization'' = Some ''1020''
   \<and> submitted_field (fst (ajax_search (canned_server org_page []) ''u'' ''bidSearchForm''
       ''bidSearchForm:btnBidSearch''
       [(''bidSearchForm:organization'', ''conservation''), (''bidSearchForm:desc'', ''road'')]
       None fresh_client)) ''bidSearchForm:desc'' = Some ''road''"
proof -
  let ?net = "canned_server org_page []"
  let ?ff = "[(''bidSearchForm:organization'', ''conservation''), (''bidSearchForm:desc'', ''road'')]"
  let ?run = "ajax_search ?net ''u'' ''bidSearchForm'' ''bidSearchForm:btnBidSearch'' ?ff None fresh_client"
  have g: "get ?net ''u'' fresh_client =
      (\<lparr>sent = [Request ''u'' None GET], slept = []\<rparr>, Inr (Some org_page))"
    by code_simp
  have t: "map_of (extract_tokens org_page) ''javax.faces.ViewState'' = Some ''VS1''"
    by code_simp
  have d: "distinct (map fst ?ff)"
    by simp
  have "snd ?run = Inr []"
    by code_simp
  then have a: "?run = (fst ?run, Inr [])"
    by (simp add: prod_eq_iff)
  have c: "resolve_org_code org_page ''bidSearchForm'' ''conservation'' = ''1020''"
    by code_simp
  show ?thesis
    using organization_field_resolved [OF g t d a] c by simp
qed

text \<open>
  The claim C6 fails on the vendor field: the contract search page offers a dropdown for
  \<^verbatim>\<open>contractBlanketSearchForm:vendorName\<close> in which \<^verbatim>\<open>Acme\<close> resolves to \<^verbatim>\<open>V1\<close>, and
  \<^verbatim>\<open>search_blankets\<close> still submits \<^verbatim>\<open>Acme\<close>.
\<close>

theorem vendor_field_submitted_unresolved:
  "submitted_field (fst (search_blankets (canned_server blanket_page []) no_entities vendor_args fresh_client))
       ''contractBlanketSearchForm:vendorName'' = Some ''Acme''
   \<and> resolve_option blanket_page ''contractBlanketSearchForm:vendorName'' ''Acme'' = ''V1''"
  by code_simp

section \<open>Limit and exclusion, dropdown resolution\<close>

lemma exclude_and_limit_spec:
  assumes "0 \<le> effective_limit args"
  shows "exclude_and_limit args parsed =
     take (nat (effective_limit args)) (filter (\<lambda>r. \<not> excluded args r) parsed)"
proof -
  have f: "(case arg_exclude args of
              None \<Rightarrow> parsed
            | Some exclude \<Rightarrow>
                if exclude = [] then parsed
                else (let term = lower exclude
                      in filter (\<lambda>r. \<not> sublist term (lower (json_dumps r))) parsed)) =
           filter (\<lambda>r. \<not> excluded args r) parsed"
    by (simp add: excluded_def Let_def split: option.splits)
  have e: "exclude_and_limit args parsed =
      slice_to (effective_limit args) (filter (\<lambda>r. \<not> excluded args r) parsed)"
    unfolding f [symmetric] by (simp add: exclude_and_limit_def effective_limit_def Let_def)
  show ?thesis
    using assms unfolding e by (simp add: slice_to_def)
qed

text \<open>
  C10, as the code has it. For a limit that is not negative (an absent limit and the limit
  0 count as 100) each of the three search operations returns exactly the first
  \<open>limit\<close> records of what its extractor parsed from the orchestration's result, after the
  excluded records are removed; so it returns at most \<open>limit\<close> records.
\<close>

theorem search_results_limited:
  assumes "0 \<le> effective_limit args"
  shows "(search_bids net unescape args st = (st', Inr results) \<longrightarrow>
            (\<exists>html parsed.
               ajax_search net BID_SEARCH_PAGE ''bidSearchForm'' ''bidSearchForm:btnBidSearch''
                 (bid_form_fields args) (Some ''bidSearchResultsForm'') st = (st', Inr html)
             \<and> parse_bid_search_results unescape html = Inr parsed
             \<and> results = take (nat (effective_limit args)) (filter (\<lambda>r. \<not> excluded args r) parsed)
             \<and> int (length results) \<le> effective_limit args))
       \<and> (search_blankets net unescape args st = (st', Inr results) \<longrightarrow>
            (\<exists>html parsed.
               ajax_search net BLANKET_SEARCH_PAGE ''contractBlanketSearchForm''
                 ''contractBlanketSearchForm:btnPoSearch'' (blanket_form_fields args)
                 (Some ''contractBlanketSearchResultsForm'') st = (st', Inr html)
             \<and> parse_blanket_search_results unescape html = Inr parsed
             \<and> results = take (nat (effective_limit args)) (filter (\<lambda>r. \<not> excluded args r) parsed)
             \<and> int (length results) \<le> effective_limit args))
       \<and> (search_vendors net unescape args st = (st', Inr results) \<longrightarrow>
            (\<exists>html parsed.
               ajax_search net VENDOR_SEARCH_PAGE ''vendorSearchForm''
                 ''vendorSearchForm:btnVendorSearch'' (vendor_form_fields args)
                 (Some ''vendorSearchResultsForm'') st = (st', Inr html)
             \<and> parse_vendor_search_results unescape html = Inr parsed
             \<and> results = take (nat (effective_limit args)) (filter (\<lambda>r. \<not> excluded args r) parsed)
             \<and> int (length results) \<le> effective_limit args))"
proof -
  have l: "int (length (take (nat (effective_limit args)) xs)) \<le> effective_limit args" for xs :: "dict list"
    using assms by simp
  show ?thesis
    unfolding search_bids_def search_blankets_def search_vendors_def
    using l by (auto simp: exclude_and_limit_spec [OF assms] split: prod.splits sum.splits)
qed

theorem search_results_limited_witness:
  "snd (search_vendors (canned_server plain_page vendor_results) no_entities (limit_args 1) fresh_client) =
     Inr [[(''vendor_name'', ''Acme'')]]
   \<and> int (length [[(''vendor_name'', ''Acme'')]]) \<le> effective_limit (limit_args 1)"
proof -
  let ?run = "search_vendors (canned_server plain_page vendor_results) no_entities (limit_args 1) fresh_client"
  have e: "0 \<le> effective_limit (limit_args 1)"
    by code_simp
  have "snd ?run = Inr [[(''vendor_name'', ''Acme'')]]"
    by code_simp
  then have r: "?run = (fst ?run, Inr [[(''vendor_name'', ''Acme'')]])"
    by (simp add: prod_eq_iff)
  have "int (length [[(''vendor_name'', ''Acme'')]]) \<le> effective_limit (limit_args 1)"
    using search_results_limited [OF e, of "canned_server plain_page vendor_results" no_entities
      fresh_client "fst ?run" "[[(''vendor_name'', ''Acme'')]]"] r
    by blast
  with \<open>snd ?run = Inr [[(''vendor_name'', ''Acme'')]]\<close> show ?thesis
    by blast
qed

text \<open>
  The claim C10 fails for a negative limit, which \<^verbatim>\<open>--limit\<close> accepts: with limit -1 and
  two vendors parsed, the slice \<^verbatim>\<open>results[:-1]\<close> returns one record, more than the limit.
\<close>

theorem negative_limit_counterexample:
  "snd (search_vendors (canned_server plain_page vendor_results) no_entities (limit_args (- 1)) fresh_client) =
     Inr [[(''vendor_name'', ''Acme'')]]
   \<and> effective_limit (limit_args (- 1)) = - 1"
  by code_simp




section \<open>Row shapes\<close>






section \<open>What a match consumes\<close>





















section \<open>Extractors are total\<close>









end
